theory Spec2Isabelle
  imports Complex_Main "HOL-Library.Word"
begin

section \<open>The solver class of NavierStokesSolver.h\<close>

text \<open>
  The header \<^verbatim>\<open>NavierStokesSolver.h\<close> declares the class template
  \<^verbatim>\<open>NavierStokesSolver<memoryType>\<close>. Two member functions have a body in the
  header: the three-argument overload of \<^verbatim>\<open>generateQT\<close> (line 91) and
  \<^verbatim>\<open>name\<close> (lines 153 to 156). Every other member function is declared only.
\<close>

subsection \<open>Sparse matrices and arrays\<close>

text \<open>
  \<^verbatim>\<open>cusp::coo_matrix<int, real, memoryType>\<close> is a matrix in coordinate format:
  its dimensions and one (row, column, value) triple per stored entry. The three parallel
  arrays of the library are kept as one list of triples, and the indices (type
  \<^verbatim>\<open>int\<close> in the code, never negative in a matrix) are natural numbers. Two triples may name the same
  position; the matrix entry there is their sum. The scalar type \<^verbatim>\<open>real\<close> of the
  code is a floating-point typedef; it is idealised here as the mathematical reals, so
  rounding is not part of the model.
\<close>

record coo_matrix =
  num_rows :: nat
  num_cols :: nat
  entries :: "(nat \<times> nat \<times> real) list"

type_synonym array1d = "real list"

subsection \<open>The data members\<close>

text \<open>
  The fields follow lines 45 to 70 of the header in order. The types
  \<^verbatim>\<open>parameterDB\<close>, \<^verbatim>\<open>domain\<close>, \<^verbatim>\<open>integrationScheme\<close>,
  \<^verbatim>\<open>Logger\<close> and \<^verbatim>\<open>std::ofstream\<close> come from other headers and stay
  type parameters. \<^verbatim>\<open>bc[4]\<close> is a list of four arrays; \<^verbatim>\<open>size_t\<close> is a
  64-bit word.
\<close>

record ('p, 'd, 'i, 'l, 'f) NavierStokesSolver =
  paramDB :: 'p
  domInfo :: 'd
  intgSchm :: 'i
  QCoeff :: real
  M :: coo_matrix
  Minv :: coo_matrix
  L :: coo_matrix
  A :: coo_matrix
  QT :: coo_matrix
  Q :: coo_matrix
  BN :: coo_matrix
  C :: coo_matrix
  q :: array1d
  qStar :: array1d
  lambda :: array1d
  rn :: array1d
  H :: array1d
  rhs1 :: array1d
  rhs2 :: array1d
  bc1 :: array1d
  bc2 :: array1d
  temp2 :: array1d
  temp1 :: array1d
  bc :: "array1d list"
  qOld :: array1d
  timeStep :: "64 word"
  subStep :: "64 word"
  iterationCount1 :: "64 word"
  iterationCount2 :: "64 word"
  forceX :: real
  forceY :: real
  force1 :: real
  logger :: 'l
  forceFile :: 'f
  iterationsFile :: 'f

subsection \<open>Caller-owned arrays behind raw pointers\<close>

text \<open>
  \<^verbatim>\<open>generateQT(int *QTRows, int *QTCols, real *QTVals)\<close> receives three raw
  pointers. Memory is a store from addresses to cells, one store per element type; a
  pointer is an address, and the pointers may alias or be null (address 0).
\<close>

record memory =
  int_cells :: "nat \<Rightarrow> 32 word"
  real_cells :: "nat \<Rightarrow> real"

definition read_ints :: "memory \<Rightarrow> nat \<Rightarrow> nat \<Rightarrow> 32 word list" where
  "read_ints h p n = map (\<lambda>k. int_cells h (p + k)) [0..<n]"

definition read_reals :: "memory \<Rightarrow> nat \<Rightarrow> nat \<Rightarrow> real list" where
  "read_reals h p n = map (\<lambda>k. real_cells h (p + k)) [0..<n]"

text \<open>
  Line 91: \<^verbatim>\<open>virtual void generateQT(int *QTRows, int *QTCols, real *QTVals){}\<close>.
  The body is empty: the call returns the object and the memory as it found them.
\<close>

definition generateQT_arrays ::
  "('p, 'd, 'i, 'l, 'f) NavierStokesSolver \<Rightarrow> nat \<Rightarrow> nat \<Rightarrow> nat \<Rightarrow> memory
     \<Rightarrow> ('p, 'd, 'i, 'l, 'f) NavierStokesSolver \<times> memory" where
  "generateQT_arrays this QTRows QTCols QTVals h = (this, h)"

text \<open>
  Lines 153 to 156: \<^verbatim>\<open>virtual std::string name() { return "Navier-Stokes"; }\<close>.
\<close>

definition name :: "('p, 'd, 'i, 'l, 'f) NavierStokesSolver \<Rightarrow> string" where
  "name this = ''Navier-Stokes''"

section \<open>The sparse-matrix operations\<close>

text \<open>
  Modelled from the spec: the sparse-matrix library behind \<^verbatim>\<open>cusp::coo_matrix\<close>
  and \<^verbatim>\<open>cusp::array1d\<close> is not part of the sources. The spec writes the
  operators as matrices and the updates as matrix products (sections 3, 4.2, 4.5 and 4.6);
  the operations below are the coordinate-format computations of those products.
\<close>

text \<open>The matrix entry at row \<open>i\<close>, column \<open>j\<close>: the sum of the stored values there.\<close>

fun entry_of :: "(nat \<times> nat \<times> real) list \<Rightarrow> nat \<Rightarrow> nat \<Rightarrow> real" where
  "entry_of [] i j = 0"
| "entry_of ((r, c, v) # es) i j = (if r = i \<and> c = j then v else 0) + entry_of es i j"

definition entry :: "coo_matrix \<Rightarrow> nat \<Rightarrow> nat \<Rightarrow> real" where
  "entry m i j = entry_of (entries m) i j"

text \<open>Every stored index lies inside the dimensions of the matrix.\<close>

definition coo_wf :: "coo_matrix \<Rightarrow> bool" where
  "coo_wf m = list_all (\<lambda>(r, c, v). r < num_rows m \<and> c < num_cols m) (entries m)"

text \<open>
  Matrix times vector: the output starts at zero, and each stored entry \<open>(r, c, v)\<close>
  adds \<open>v * x[c]\<close> to \<open>y[r]\<close>.
\<close>

fun spmv_coo :: "(nat \<times> nat \<times> real) list \<Rightarrow> real list \<Rightarrow> real list \<Rightarrow> real list" where
  "spmv_coo [] x y = y"
| "spmv_coo ((r, c, v) # es) x y = spmv_coo es x (y[r := y ! r + v * x ! c])"

definition multiply_mv :: "coo_matrix \<Rightarrow> array1d \<Rightarrow> array1d" where
  "multiply_mv m x = spmv_coo (entries m) x (replicate (num_rows m) 0)"

text \<open>The vector \<open>alpha * x + beta * y\<close>, element by element.\<close>

definition axpby :: "array1d \<Rightarrow> array1d \<Rightarrow> real \<Rightarrow> real \<Rightarrow> array1d" where
  "axpby x y alpha beta = map2 (\<lambda>a b. alpha * a + beta * b) x y"

text \<open>
  Matrix times matrix: every stored entry \<open>(r, c, v)\<close> of the left factor meets every
  stored entry \<open>(c, c', v')\<close> of the right factor in row \<open>c\<close> and contributes
  \<open>(r, c', v * v')\<close>.
\<close>

definition multiply_entries ::
  "(nat \<times> nat \<times> real) list \<Rightarrow> (nat \<times> nat \<times> real) list \<Rightarrow> (nat \<times> nat \<times> real) list" where
  "multiply_entries as bs =
     concat (map (\<lambda>(r, c, v).
       map (\<lambda>(r', c', v'). (r, c', v * v')) (filter (\<lambda>(r', c', v'). r' = c) bs)) as)"

definition multiply_mm :: "coo_matrix \<Rightarrow> coo_matrix \<Rightarrow> coo_matrix" where
  "multiply_mm a b =
     \<lparr>num_rows = num_rows a, num_cols = num_cols b,
      entries = multiply_entries (entries a) (entries b)\<rparr>"

definition transpose_coo :: "coo_matrix \<Rightarrow> coo_matrix" where
  "transpose_coo a =
     \<lparr>num_rows = num_cols a, num_cols = num_rows a,
      entries = map (\<lambda>(r, c, v). (c, r, v)) (entries a)\<rparr>"

text \<open>A square matrix whose entries at \<open>(i, j)\<close> and \<open>(j, i)\<close> agree.\<close>

definition symmetric_coo :: "coo_matrix \<Rightarrow> bool" where
  "symmetric_coo a =
     (num_rows a = num_cols a \<and>
      list_all (\<lambda>i. list_all (\<lambda>j. entry a i j = entry a j i) [0..<num_rows a]) [0..<num_rows a])"

text \<open>
  What the stored entries of row \<open>i\<close> contribute to a product, with weight \<open>f c\<close> for
  column \<open>c\<close>. It links the coordinate-format computations to the sums over columns.
\<close>

fun weighted_row :: "(nat \<times> nat \<times> real) list \<Rightarrow> nat \<Rightarrow> (nat \<Rightarrow> real) \<Rightarrow> real" where
  "weighted_row [] i f = 0"
| "weighted_row ((r, c, v) # es) i f = (if r = i then v * f c else 0) + weighted_row es i f"

section \<open>Member functions declared in the header and described by the spec\<close>

text \<open>
  Modelled from the spec: the body of \<^verbatim>\<open>projectionStep\<close> (declared at line 112) is
  not part of the sources. Section 4.6 of the spec: it computes
  \<open>q_new = qStar - BN * Q * lambda\<close>, a linear update with no iteration, and updates
  \<open>q\<close>.
\<close>

definition projectionStep ::
  "('p, 'd, 'i, 'l, 'f) NavierStokesSolver \<Rightarrow> ('p, 'd, 'i, 'l, 'f) NavierStokesSolver" where
  "projectionStep this =
     this\<lparr>q := axpby (qStar this) (multiply_mv (BN this) (multiply_mv (Q this) (lambda this))) 1 (- 1)\<rparr>"

text \<open>
  Modelled from the spec: the body of \<^verbatim>\<open>generateC\<close> (declared at line 95) is not
  part of the sources. Section 3 of the spec: \<open>C\<close> is the Schur complement
  \<open>QT * BN * Q\<close>.
\<close>

definition generateC ::
  "('p, 'd, 'i, 'l, 'f) NavierStokesSolver \<Rightarrow> ('p, 'd, 'i, 'l, 'f) NavierStokesSolver" where
  "generateC this = this\<lparr>C := multiply_mm (multiply_mm (QT this) (BN this)) (Q this)\<rparr>"

section \<open>Example solver objects\<close>

definition empty_coo :: coo_matrix where
  "empty_coo = \<lparr>num_rows = 0, num_cols = 0, entries = []\<rparr>"

definition blank_solver :: "(unit, unit, unit, unit, unit) NavierStokesSolver" where
  "blank_solver =
     \<lparr>paramDB = (), domInfo = (), intgSchm = (), QCoeff = 0,
      M = empty_coo, Minv = empty_coo, L = empty_coo, A = empty_coo, QT = empty_coo,
      Q = empty_coo, BN = empty_coo, C = empty_coo,
      q = [], qStar = [], lambda = [], rn = [], H = [], rhs1 = [], rhs2 = [], bc1 = [],
      bc2 = [], temp2 = [], temp1 = [], bc = [[], [], [], []], qOld = [],
      timeStep = 0, subStep = 0, iterationCount1 = 0, iterationCount2 = 0,
      forceX = 0, forceY = 0, force1 = 0,
      logger = (), forceFile = (), iterationsFile = ()\<rparr>"

text \<open>Two fluxes and one multiplier: \<open>BN = [[2, 1], [1, 2]]\<close>, \<open>Q = [[1], [-1]]\<close>.\<close>

definition projection_example :: "(unit, unit, unit, unit, unit) NavierStokesSolver" where
  "projection_example =
     blank_solver
       \<lparr>BN := \<lparr>num_rows = 2, num_cols = 2, entries = [(0, 0, 2), (0, 1, 1), (1, 0, 1), (1, 1, 2)]\<rparr>,
        Q := \<lparr>num_rows = 2, num_cols = 1, entries = [(0, 0, 1), (1, 0, - 1)]\<rparr>,
        qStar := [5, 7], lambda := [3]\<rparr>"

text \<open>
  Three fluxes and two multipliers: the full \<open>QT = [[1, 2, 3], [4, 5, 6]]\<close> stored row
  by row, \<open>Q = [[1, 4], [2, 5], [3, 6]]\<close> (its transpose) stored row by row as well, and
  the symmetric \<open>BN = [[2, 1, 1], [1, 3, 0], [1, 0, 4]]\<close>. The triples of \<open>Q\<close> are not
  in the order in which transposing the triples of \<open>QT\<close> one by one would leave them.
\<close>

definition schur_example :: "(unit, unit, unit, unit, unit) NavierStokesSolver" where
  "schur_example =
     blank_solver
       \<lparr>QT := \<lparr>num_rows = 2, num_cols = 3,
               entries = [(0, 0, 1), (0, 1, 2), (0, 2, 3), (1, 0, 4), (1, 1, 5), (1, 2, 6)]\<rparr>,
        Q := \<lparr>num_rows = 3, num_cols = 2,
               entries = [(0, 0, 1), (0, 1, 4), (1, 0, 2), (1, 1, 5), (2, 0, 3), (2, 1, 6)]\<rparr>,
        BN := \<lparr>num_rows = 3, num_cols = 3,
               entries = [(0, 0, 2), (0, 1, 1), (0, 2, 1), (1, 0, 1), (1, 1, 3), (2, 0, 1), (2, 2, 4)]\<rparr>\<rparr>"

section \<open>The sparse-matrix operations compute the matrix products\<close>

lemma weighted_row_dense:
  "list_all (\<lambda>(r, c, v). c < n) es \<Longrightarrow> weighted_row es i f = (\<Sum>k<n. entry_of es i k * f k)"
proof (induction es)
  case Nil
  show ?case by simp
next
  case (Cons e es)
  obtain r c v where e: "e = (r, c, v)" by (cases e)
  from Cons.prems e have c: "c < n" and rest: "list_all (\<lambda>(r, c, v). c < n) es" by simp_all
  have "(\<Sum>k<n. (if r = i \<and> c = k then v else 0) * f k) = (if r = i then v * f c else 0)"
  proof (cases "r = i")
    case True
    have "(\<Sum>k<n. (if c = k then v else 0) * f k) = (\<Sum>k<n. if c = k then v * f k else 0)"
      by (rule sum.cong) simp_all
    also have "\<dots> = v * f c" using c by simp
    finally show ?thesis using True by simp
  next
    case False
    then show ?thesis by simp
  qed
  then show ?case using Cons.IH [OF rest] e
    by (simp add: distrib_right sum.distrib)
qed

lemma length_spmv_coo: "length (spmv_coo es x y) = length y"
  by (induction es arbitrary: y) auto

lemma spmv_coo_nth:
  "i < length y \<Longrightarrow> spmv_coo es x y ! i = y ! i + weighted_row es i (\<lambda>c. x ! c)"
proof (induction es arbitrary: y)
  case Nil
  show ?case by simp
next
  case (Cons e es)
  obtain r c v where e: "e = (r, c, v)" by (cases e)
  show ?case using Cons.prems e
    by (simp add: Cons.IH nth_list_update)
qed

lemma multiply_mv_length: "length (multiply_mv m x) = num_rows m"
  by (simp add: multiply_mv_def length_spmv_coo)

lemma coo_wf_cols: "coo_wf m \<Longrightarrow> list_all (\<lambda>(r, c, v). c < num_cols m) (entries m)"
  unfolding coo_wf_def by (induction "entries m") (auto simp: list_all_iff)

lemma multiply_mv_dense:
  assumes "coo_wf m" "i < num_rows m"
  shows "multiply_mv m x ! i = (\<Sum>k<num_cols m. entry m i k * x ! k)"
  using assms
  by (simp add: multiply_mv_def spmv_coo_nth entry_def
      weighted_row_dense [OF coo_wf_cols [OF assms(1)]])


lemma axpby_nth:
  "i < length x \<Longrightarrow> i < length y \<Longrightarrow> axpby x y alpha beta ! i = alpha * x ! i + beta * y ! i"
  by (simp add: axpby_def)

lemma axpby_length: "length (axpby x y alpha beta) = min (length x) (length y)"
  by (simp add: axpby_def)

lemma entry_of_append: "entry_of (xs @ ys) i j = entry_of xs i j + entry_of ys i j"
  by (induction xs) auto

lemma entry_of_scaled_row:
  "entry_of (map (\<lambda>(r', c', v'). (r, c', v * v')) (filter (\<lambda>(r', c', v'). r' = c) bs)) i j =
     (if r = i then v * entry_of bs c j else 0)"
  by (induction bs) (auto simp: distrib_left)

lemma entry_of_multiply_entries:
  "entry_of (multiply_entries as bs) i j = weighted_row as i (\<lambda>c. entry_of bs c j)"
proof (induction as)
  case Nil
  show ?case by (simp add: multiply_entries_def)
next
  case (Cons e as)
  obtain r c v where e: "e = (r, c, v)" by (cases e)
  have "multiply_entries (e # as) bs =
          map (\<lambda>(r', c', v'). (r, c', v * v')) (filter (\<lambda>(r', c', v'). r' = c) bs)
          @ multiply_entries as bs"
    by (simp add: multiply_entries_def e)
  then show ?case using Cons.IH
    by (simp add: entry_of_append entry_of_scaled_row e)
qed

lemma multiply_mm_dense:
  assumes "coo_wf a"
  shows "entry (multiply_mm a b) i j = (\<Sum>k<num_cols a. entry a i k * entry b k j)"
  by (simp add: entry_def multiply_mm_def entry_of_multiply_entries
      weighted_row_dense [OF coo_wf_cols [OF assms]])

lemma coo_wf_multiply_mm: "coo_wf a \<Longrightarrow> coo_wf b \<Longrightarrow> coo_wf (multiply_mm a b)"
  unfolding coo_wf_def multiply_mm_def
  by (auto simp: multiply_entries_def list_all_iff)

lemma entry_of_transposed: "entry_of (map (\<lambda>(r, c, v). (c, r, v)) es) i j = entry_of es j i"
  by (induction es) auto

lemma entry_transpose_coo: "entry (transpose_coo a) i j = entry a j i"
  by (simp add: entry_def transpose_coo_def entry_of_transposed)

lemma symmetric_coo_entry:
  "symmetric_coo a \<Longrightarrow> i < num_rows a \<Longrightarrow> j < num_rows a \<Longrightarrow> entry a i j = entry a j i"
  by (simp add: symmetric_coo_def list_all_iff)


lemma congruence_sum_symmetric:
  fixes a :: "nat \<Rightarrow> nat \<Rightarrow> real" and b :: "nat \<Rightarrow> nat \<Rightarrow> real"
  assumes sym: "\<And>k l. k < n \<Longrightarrow> l < n \<Longrightarrow> b l k = b k l"
  shows "(\<Sum>k<n. (\<Sum>l<n. a i l * b l k) * (g * a j k)) =
         (\<Sum>k<n. (\<Sum>l<n. a j l * b l k) * (g * a i k))"
proof -
  have "(\<Sum>k<n. (\<Sum>l<n. a i l * b l k) * (g * a j k)) =
        (\<Sum>k<n. \<Sum>l<n. a i l * b l k * (g * a j k))"
    by (simp add: sum_distrib_right)
  also have "\<dots> = (\<Sum>l<n. \<Sum>k<n. a i l * b l k * (g * a j k))"
    by (rule sum.swap)
  also have "\<dots> = (\<Sum>l<n. \<Sum>k<n. a j k * b k l * (g * a i l))"
  proof (rule sum.cong [OF refl], rule sum.cong [OF refl])
    fix l k
    assume "l \<in> {..<n}" and "k \<in> {..<n}"
    then have "b l k = b k l" using sym by simp
    then show "a i l * b l k * (g * a j k) = a j k * b k l * (g * a i l)"
      by simp
  qed
  also have "\<dots> = (\<Sum>l<n. (\<Sum>k<n. a j k * b k l) * (g * a i l))"
    by (simp add: sum_distrib_right)
  finally show ?thesis .
qed

section \<open>Properties of the code in the header\<close>

text \<open>
  C9. In the base solver the three-argument overload of \<^verbatim>\<open>generateQT\<close> is a no-op:
  for every object, every memory and every three pointers (aliased or not), and for every
  length \<open>n\<close>, the \<open>n\<close> cells behind each of the three pointers hold after the call what
  they held before it; the whole memory and the solver object are unchanged as well.
\<close>

theorem generateQT_arrays_noop:
  "read_ints (snd (generateQT_arrays this QTRows QTCols QTVals h)) QTRows n = read_ints h QTRows n
   \<and> read_ints (snd (generateQT_arrays this QTRows QTCols QTVals h)) QTCols n = read_ints h QTCols n
   \<and> read_reals (snd (generateQT_arrays this QTRows QTCols QTVals h)) QTVals n = read_reals h QTVals n
   \<and> snd (generateQT_arrays this QTRows QTCols QTVals h) = h
   \<and> fst (generateQT_arrays this QTRows QTCols QTVals h) = this"
  by (simp add: generateQT_arrays_def)

text \<open>
  C10. For the base solver class \<^verbatim>\<open>name()\<close> returns exactly the string
  "Navier-Stokes", whatever the state of the object: any two solver objects give the
  same name.
\<close>

theorem name_is_Navier_Stokes:
  "name this = ''Navier-Stokes'' \<and> name this = name other"
  by (simp add: name_def)

section \<open>Properties of the member functions described by the spec\<close>

text \<open>
  C1. The projection step computes the new flux as \<open>q_new = qStar - BN * Q * lambda\<close>:
  for operators and arrays of matching dimensions, entry \<open>i\<close> of the new \<open>q\<close> is entry
  \<open>i\<close> of \<open>qStar\<close> minus the double sum of \<open>BN(i, j) * Q(j, k) * lambda(k)\<close> over
  all columns \<open>j\<close> and \<open>k\<close>. It is one linear update with no iteration: the new \<open>q\<close>
  has the length of \<open>qStar\<close>, and \<open>qStar\<close> and \<open>lambda\<close> are left as they were,
  so \<open>qStar\<close> stays available as scratch for the next sub-step.
\<close>

theorem projectionStep_formula:
  assumes "coo_wf (BN this)" and "coo_wf (Q this)"
    and "num_cols (BN this) = num_rows (Q this)"
    and "length (lambda this) = num_cols (Q this)"
    and "length (qStar this) = num_rows (BN this)"
    and "i < num_rows (BN this)"
  shows "q (projectionStep this) ! i =
           qStar this ! i -
           (\<Sum>j<num_rows (Q this). entry (BN this) i j *
              (\<Sum>k<num_cols (Q this). entry (Q this) j k * lambda this ! k))
         \<and> length (q (projectionStep this)) = length (qStar this)
         \<and> qStar (projectionStep this) = qStar this
         \<and> lambda (projectionStep this) = lambda this"
proof -
  let ?g = "multiply_mv (Q this) (lambda this)"
  let ?p = "multiply_mv (BN this) ?g"
  have inner: "?g ! j = (\<Sum>k<num_cols (Q this). entry (Q this) j k * lambda this ! k)"
    if "j < num_rows (Q this)" for j
    using assms(2) that by (rule multiply_mv_dense)
  have "?p ! i = (\<Sum>j<num_cols (BN this). entry (BN this) i j * ?g ! j)"
    using assms(1,6) by (rule multiply_mv_dense)
  also have "\<dots> = (\<Sum>j<num_rows (Q this). entry (BN this) i j *
              (\<Sum>k<num_cols (Q this). entry (Q this) j k * lambda this ! k))"
    unfolding assms(3) by (rule sum.cong) (simp_all add: inner)
  finally have p: "?p ! i = (\<Sum>j<num_rows (Q this). entry (BN this) i j *
              (\<Sum>k<num_cols (Q this). entry (Q this) j k * lambda this ! k))" .
  have len: "length ?p = length (qStar this)"
    by (simp add: multiply_mv_length assms(5))
  have "q (projectionStep this) ! i = qStar this ! i - ?p ! i"
    using assms(5,6) len by (simp add: projectionStep_def axpby_nth)
  moreover have "length (q (projectionStep this)) = length (qStar this)"
    using len by (simp add: projectionStep_def axpby_length)
  ultimately show ?thesis
    using p by (simp add: projectionStep_def)
qed


theorem projectionStep_formula_witness:
  "coo_wf (BN projection_example) \<and> coo_wf (Q projection_example)
   \<and> num_cols (BN projection_example) = num_rows (Q projection_example)
   \<and> length (lambda projection_example) = num_cols (Q projection_example)
   \<and> length (qStar projection_example) = num_rows (BN projection_example)
   \<and> (1::nat) < num_rows (BN projection_example)
   \<and> q (projectionStep projection_example) ! 1 =
       qStar projection_example ! 1 -
       (\<Sum>j<num_rows (Q projection_example). entry (BN projection_example) 1 j *
          (\<Sum>k<num_cols (Q projection_example).
             entry (Q projection_example) j k * lambda projection_example ! k))
   \<and> q (projectionStep projection_example) ! 1 = 10
   \<and> qStar (projectionStep projection_example) = [5, 7]
   \<and> lambda (projectionStep projection_example) = [3]"
proof -
  have h1: "coo_wf (BN projection_example)"
    by (simp add: projection_example_def blank_solver_def coo_wf_def)
  have h2: "coo_wf (Q projection_example)"
    by (simp add: projection_example_def blank_solver_def coo_wf_def)
  have h3: "num_cols (BN projection_example) = num_rows (Q projection_example)"
    by (simp add: projection_example_def blank_solver_def)
  have h4: "length (lambda projection_example) = num_cols (Q projection_example)"
    by (simp add: projection_example_def blank_solver_def)
  have h5: "length (qStar projection_example) = num_rows (BN projection_example)"
    by (simp add: projection_example_def blank_solver_def)
  have h6: "(1::nat) < num_rows (BN projection_example)"
    by (simp add: projection_example_def blank_solver_def)
  have v: "q (projectionStep projection_example) ! 1 = 10"
    by (simp add: projectionStep_def projection_example_def blank_solver_def
        multiply_mv_def axpby_def)
  have f: "qStar projection_example = [5, 7] \<and> lambda projection_example = [3]"
    by (simp add: projection_example_def blank_solver_def)
  show ?thesis
    using projectionStep_formula [OF h1 h2 h3 h4 h5 h6] h1 h2 h3 h4 h5 h6 v f by simp
qed

text \<open>
  C5. Whenever \<open>BN\<close> is symmetric, the Schur complement \<open>C = QT * BN * Q\<close> produced by
  \<^verbatim>\<open>generateC\<close> is symmetric: \<open>C(i, j) = C(j, i)\<close> for all \<open>i\<close> and \<open>j\<close>, that
  is, every entry of \<open>C - C\<^sup>t\<close> is zero. Here \<open>Q\<close> and \<open>QT\<close> are what their names
  and section 3 of the spec say, the gradient and its transpose: as matrices, entry
  \<open>(k, c)\<close> of \<open>Q\<close> is entry \<open>(c, k)\<close> of \<open>QT\<close>, up to one scalar factor \<open>g\<close> (1
  for the plain transpose, -1 for the negative transpose of section 4.1). Nothing is
  asked of the order or the number of the stored triples of either matrix. Over the exact
  reals of this model the difference is zero, not only small.
\<close>

theorem generateC_symmetric:
  assumes "coo_wf (QT this)" and "coo_wf (BN this)"
    and "num_cols (QT this) = num_rows (BN this)"
    and "symmetric_coo (BN this)"
    and "\<And>k c. entry (Q this) k c = g * entry (QT this) c k"
  shows "entry (C (generateC this)) i j = entry (C (generateC this)) j i
         \<and> entry (C (generateC this)) i j - entry (transpose_coo (C (generateC this))) i j = 0"
proof -
  let ?n = "num_rows (BN this)"
  have sq: "num_cols (BN this) = ?n"
    using assms(4) by (simp add: symmetric_coo_def)
  have wf: "coo_wf (multiply_mm (QT this) (BN this))"
    using assms(1,2) by (rule coo_wf_multiply_mm)
  have cols: "num_cols (multiply_mm (QT this) (BN this)) = ?n"
    by (simp add: multiply_mm_def sq)
  have expand: "entry (C (generateC this)) r c =
      (\<Sum>k<?n. (\<Sum>l<?n. entry (QT this) r l * entry (BN this) l k) * (g * entry (QT this) c k))"
    for r c
    by (simp add: generateC_def multiply_mm_dense [OF wf] cols
        multiply_mm_dense [OF assms(1)] assms(3,5))
  have "entry (C (generateC this)) i j = entry (C (generateC this)) j i"
    unfolding expand
    by (rule congruence_sum_symmetric) (simp add: symmetric_coo_entry [OF assms(4)])
  then show ?thesis
    by (simp add: entry_transpose_coo)
qed

theorem generateC_symmetric_witness:
  "coo_wf (QT schur_example) \<and> coo_wf (BN schur_example)
   \<and> num_cols (QT schur_example) = num_rows (BN schur_example)
   \<and> symmetric_coo (BN schur_example)
   \<and> (\<forall>k c. entry (Q schur_example) k c = 1 * entry (QT schur_example) c k)
   \<and> entries (Q schur_example) \<noteq> entries (transpose_coo (QT schur_example))
   \<and> entry (C (generateC schur_example)) 0 1 = entry (C (generateC schur_example)) 1 0
   \<and> entry (C (generateC schur_example)) 0 1 = 141
   \<and> entry (C (generateC schur_example)) 0 0 = 60
   \<and> entry (C (generateC schur_example)) 1 1 = 339"
proof -
  have h1: "coo_wf (QT schur_example)"
    by (simp add: schur_example_def blank_solver_def coo_wf_def)
  have h2: "coo_wf (BN schur_example)"
    by (simp add: schur_example_def blank_solver_def coo_wf_def)
  have h3: "num_cols (QT schur_example) = num_rows (BN schur_example)"
    by (simp add: schur_example_def blank_solver_def)
  have h4: "symmetric_coo (BN schur_example)"
    by (simp add: schur_example_def blank_solver_def symmetric_coo_def entry_def upt_rec)
  have h5: "entry (Q schur_example) k c = 1 * entry (QT schur_example) c k" for k c
    by (simp add: schur_example_def blank_solver_def entry_def)
  have order: "entries (Q schur_example) \<noteq> entries (transpose_coo (QT schur_example))"
    by (simp add: schur_example_def blank_solver_def transpose_coo_def)
  have v: "entry (C (generateC schur_example)) 0 1 = 141
      \<and> entry (C (generateC schur_example)) 0 0 = 60
      \<and> entry (C (generateC schur_example)) 1 1 = 339"
    by (simp add: generateC_def schur_example_def blank_solver_def entry_def multiply_mm_def
        multiply_entries_def)
  show ?thesis
    using generateC_symmetric [OF h1 h2 h3 h4 h5, of 0 1] h1 h2 h3 h4 h5 order v by simp
qed

end
